theory Spec2Isabelle
  imports Main "HOL-Library.Word"
begin

section \<open>The host libraries, as the program sees them\<close>

text \<open>
  \<^verbatim>\<open>src/generate/qrcode_pix.py\<close> drives a browser through Selenium, and uses the
  operating system, the clock, \<^verbatim>\<open>base64\<close>, PIL and the console. None of that is code of the
  repository: it is the environment of the program, and every theorem below holds for an
  arbitrary environment. The values the program exchanges with it are modelled first.
\<close>

text \<open>A Selenium \<^verbatim>\<open>WebElement\<close>, identified by its element id.\<close>

datatype elem = WebElement nat

text \<open>The locator strategies of \<^verbatim>\<open>selenium.webdriver.common.by.By\<close> that the program uses.\<close>

datatype By = By_ID | By_XPATH | By_CSS_SELECTOR

text \<open>The two \<^verbatim>\<open>expected_conditions\<close> the program waits for.\<close>

datatype cond =
    presence_of_element_located By string
  | element_to_be_clickable By string

type_synonym bytes = "8 word list"

text \<open>A PIL image: the program reads its \<^verbatim>\<open>width\<close> and \<^verbatim>\<open>height\<close>, and saves it.\<close>

datatype image = Image (width: nat) (height: nat) (pixels: bytes)

text \<open>Chrome \<^verbatim>\<open>Options\<close>: the arguments and the experimental options, in the order added.\<close>

datatype optval = OptList "string list" | OptBool bool

record options =
  arguments :: "string list"
  experimental_options :: "(string \<times> optval) list"

text \<open>
  Exceptions. Every exception of the model is an instance of Python's \<^verbatim>\<open>Exception\<close>
  (so both \<^verbatim>\<open>except Exception\<close> and a bare \<^verbatim>\<open>except\<close> catch it):
  \<^item> \<open>HostError n\<close>: raised inside a call of a host library (Selenium's
    \<^verbatim>\<open>TimeoutException\<close>, \<^verbatim>\<open>NoSuchElementException\<close>, an \<^verbatim>\<open>OSError\<close>,
    \<^verbatim>\<open>binascii.Error\<close>, ...), \<open>n\<close> being its rendering;
  \<^item> \<open>IndexError\<close>: a list index out of range (line 316);
  \<^item> \<open>FinishClickFailed\<close>: the \<^verbatim>\<open>Exception\<close> raised at line 233 (the finalize control
    could not be clicked);
  \<^item> \<open>QrCodeNotFound\<close>: the \<^verbatim>\<open>Exception\<close> raised at line 291 (the QR code was not found
    on the page).
\<close>

datatype exn = HostError string | IndexError | FinishClickFailed | QrCodeNotFound

text \<open>
  The records written to the logger, one constructor per logging call of the source (the
  source's texts are Portuguese; the line of each call is given).
\<close>

datatype lmsg =
    Starting string             \<comment> \<open>line 164, with the email\<close>
  | GeneratedOk string          \<comment> \<open>line 184, with the email\<close>
  | GenerateError exn           \<comment> \<open>line 188, with \<^verbatim>\<open>str(e)\<close>\<close>
  | NavigatingCheckout string   \<comment> \<open>line 197, with the URL\<close>
  | CpfFilled                   \<comment> \<open>line 205\<close>
  | FinishClicked               \<comment> \<open>line 223\<close>
  | FinishClickError exn        \<comment> \<open>line 226\<close>
  | ClickedWithJavaScript       \<comment> \<open>line 231\<close>
  | ExistingPixDetected         \<comment> \<open>line 256\<close>
  | NoExistingPix               \<comment> \<open>line 262\<close>
  | ExistingPixError exn        \<comment> \<open>line 265\<close>
  | AwaitingRedirect            \<comment> \<open>line 274\<close>
  | UrlAfterWait string         \<comment> \<open>line 277, with the URL read again\<close>
  | QrCaptured                  \<comment> \<open>line 285\<close>
  | QrNotFoundAfter15s          \<comment> \<open>line 289\<close>
  | CapturingImage              \<comment> \<open>line 301\<close>
  | ImageInvalid                \<comment> \<open>line 312\<close>
  | ImageSaved string           \<comment> \<open>line 336, with the file name\<close>
  | ImageCaptureError exn       \<comment> \<open>line 340\<close>
  | ScreenshotSaved string      \<comment> \<open>line 355, with the file name\<close>
  | ScreenshotError exn         \<comment> \<open>line 358\<close>
  | NavigatingTo string         \<comment> \<open>line 363\<close>
  | BrowserClosed               \<comment> \<open>line 383\<close>

text \<open>The lines printed on the console by \<^verbatim>\<open>capture_and_display_qr_image\<close>.\<close>

datatype pmsg =
    PrintCaptured               \<comment> \<open>line 330\<close>
  | PrintSavedFile string       \<comment> \<open>line 331, with the file name\<close>
  | PrintDimensions nat nat     \<comment> \<open>line 332, with \<^verbatim>\<open>image.width\<close> and \<^verbatim>\<open>image.height\<close>\<close>
  | PrintSize nat               \<comment> \<open>line 333, with \<^verbatim>\<open>len(image_bytes)\<close>\<close>
  | PrintSaved                  \<comment> \<open>line 334\<close>

text \<open>
  The calls the program makes to its environment, in the order it makes them, are the trace of
  a run.
\<close>

datatype event =
    Chrome options                    \<comment> \<open>\<^verbatim>\<open>webdriver.Chrome(options=...)\<close>\<close>
  | ExecuteScript string "elem list"  \<comment> \<open>\<^verbatim>\<open>driver.execute_script(script, *args)\<close>\<close>
  | Get string                        \<comment> \<open>\<^verbatim>\<open>driver.get(url)\<close>\<close>
  | WaitUntil int cond                \<comment> \<open>\<^verbatim>\<open>WebDriverWait(driver, timeout).until(cond)\<close>\<close>
  | FindElement By string             \<comment> \<open>\<^verbatim>\<open>driver.find_element(by, value)\<close>\<close>
  | SendKeys elem string              \<comment> \<open>\<^verbatim>\<open>element.send_keys(keys)\<close>\<close>
  | Click elem                        \<comment> \<open>\<^verbatim>\<open>element.click()\<close>\<close>
  | GetAttribute elem string          \<comment> \<open>\<^verbatim>\<open>element.get_attribute(name)\<close>\<close>
  | CurrentUrl                        \<comment> \<open>\<^verbatim>\<open>driver.current_url\<close>\<close>
  | SaveScreenshot string             \<comment> \<open>\<^verbatim>\<open>driver.save_screenshot(filename)\<close>\<close>
  | Quit                              \<comment> \<open>\<^verbatim>\<open>driver.quit()\<close>\<close>
  | Sleep nat                         \<comment> \<open>\<^verbatim>\<open>time.sleep(seconds)\<close>\<close>
  | Strftime string                   \<comment> \<open>\<^verbatim>\<open>time.strftime(format)\<close>\<close>
  | PathExists string                 \<comment> \<open>\<^verbatim>\<open>os.path.exists(path)\<close>\<close>
  | Makedirs string                   \<comment> \<open>\<^verbatim>\<open>os.makedirs(path)\<close>\<close>
  | OpenWrite string string           \<comment> \<open>\<^verbatim>\<open>open(path, 'w')\<close>, then \<^verbatim>\<open>write(text)\<close>\<close>
  | BasicConfig                       \<comment> \<open>\<^verbatim>\<open>logging.basicConfig(...)\<close>\<close>
  | ImageSave image string            \<comment> \<open>\<^verbatim>\<open>image.save(filename)\<close>\<close>
  | Print pmsg                        \<comment> \<open>\<^verbatim>\<open>print(...)\<close>\<close>
  | LogInfo lmsg                      \<comment> \<open>\<^verbatim>\<open>logger.info(...)\<close>\<close>
  | LogError lmsg                     \<comment> \<open>\<^verbatim>\<open>logger.error(...)\<close>\<close>

text \<open>
  The environment: a world \<open>'w\<close> (the browser and the page it shows, the file system, the
  clock, the console) and, for every host call, what the call answers in a world and the world
  it leaves. \<open>Inl n\<close> is the call raising an exception rendered \<open>n\<close>. The world is arbitrary,
  so the page may change between any two calls. \<^verbatim>\<open>element.get_attribute\<close> answers
  \<^verbatim>\<open>None\<close> for an attribute the element does not have. \<^verbatim>\<open>base64.b64decode\<close> and
  \<^verbatim>\<open>Image.open\<close> (on an in-memory buffer) depend on their argument only.
  \<^verbatim>\<open>time.sleep\<close>, \<^verbatim>\<open>time.strftime\<close> and \<^verbatim>\<open>os.path.exists\<close> do not raise.
\<close>

record 'w env =
  webdriver_Chrome :: "options \<Rightarrow> 'w \<Rightarrow> (string + unit) \<times> 'w"
  drv_execute_script :: "string \<Rightarrow> elem list \<Rightarrow> 'w \<Rightarrow> (string + unit) \<times> 'w"
  drv_get :: "string \<Rightarrow> 'w \<Rightarrow> (string + unit) \<times> 'w"
  wdw_until :: "int \<Rightarrow> cond \<Rightarrow> 'w \<Rightarrow> (string + elem) \<times> 'w"
  drv_find_element :: "By \<Rightarrow> string \<Rightarrow> 'w \<Rightarrow> (string + elem) \<times> 'w"
  el_send_keys :: "elem \<Rightarrow> string \<Rightarrow> 'w \<Rightarrow> (string + unit) \<times> 'w"
  el_click :: "elem \<Rightarrow> 'w \<Rightarrow> (string + unit) \<times> 'w"
  el_get_attribute :: "elem \<Rightarrow> string \<Rightarrow> 'w \<Rightarrow> (string + string option) \<times> 'w"
  drv_current_url :: "'w \<Rightarrow> (string + string) \<times> 'w"
  drv_save_screenshot :: "string \<Rightarrow> 'w \<Rightarrow> (string + bool) \<times> 'w"
  drv_quit :: "'w \<Rightarrow> (string + unit) \<times> 'w"
  time_sleep :: "nat \<Rightarrow> 'w \<Rightarrow> 'w"
  time_strftime :: "string \<Rightarrow> 'w \<Rightarrow> string \<times> 'w"
  os_path_exists :: "string \<Rightarrow> 'w \<Rightarrow> bool \<times> 'w"
  os_makedirs :: "string \<Rightarrow> 'w \<Rightarrow> (string + unit) \<times> 'w"
  open_write :: "string \<Rightarrow> string \<Rightarrow> 'w \<Rightarrow> (string + unit) \<times> 'w"
  logging_basicConfig :: "'w \<Rightarrow> (string + unit) \<times> 'w"
  base64_b64decode :: "string \<Rightarrow> string + bytes"
  Image_open :: "bytes \<Rightarrow> string + image"
  image_save :: "image \<Rightarrow> string \<Rightarrow> 'w \<Rightarrow> (string + unit) \<times> 'w"
  py_print :: "pmsg \<Rightarrow> 'w \<Rightarrow> (string + unit) \<times> 'w"

section \<open>Programs: state, exceptions, \<^verbatim>\<open>try\<close>/\<^verbatim>\<open>except\<close>\<close>

record 'w state =
  world :: 'w
  trace :: "event list"

text \<open>
  A statement of the source is a function from the state to a result and the state it leaves;
  \<open>Inl e\<close> is the statement raising \<open>e\<close>.
\<close>

type_synonym ('w, 'a) prog = "'w state \<Rightarrow> (exn + 'a) \<times> 'w state"

definition ret :: "'a \<Rightarrow> ('w, 'a) prog" where
  "ret x s = (Inr x, s)"

definition raise :: "exn \<Rightarrow> ('w, 'a) prog" where
  "raise e s = (Inl e, s)"

definition bnd :: "('w, 'a) prog \<Rightarrow> ('a \<Rightarrow> ('w, 'b) prog) \<Rightarrow> ('w, 'b) prog" where
  "bnd m f s = (case m s of (Inl e, s') \<Rightarrow> (Inl e, s') | (Inr x, s') \<Rightarrow> f x s')"

definition nxt :: "('w, 'a) prog \<Rightarrow> ('w, 'b) prog \<Rightarrow> ('w, 'b) prog" where
  "nxt m n = bnd m (\<lambda>_. n)"

text \<open>\<^verbatim>\<open>try: m  except [Exception as e]: h e\<close>\<close>

definition try_except :: "('w, 'a) prog \<Rightarrow> (exn \<Rightarrow> ('w, 'a) prog) \<Rightarrow> ('w, 'a) prog" where
  "try_except m h s = (case m s of (Inl e, s') \<Rightarrow> h e s' | (Inr x, s') \<Rightarrow> (Inr x, s'))"

text \<open>A host call that may raise, and one that does not: both are recorded in the trace.\<close>

definition call :: "event \<Rightarrow> ('w \<Rightarrow> (string + 'a) \<times> 'w) \<Rightarrow> ('w, 'a) prog" where
  "call ev f s =
     (case f (world s) of
        (Inl n, w') \<Rightarrow> (Inl (HostError n), s\<lparr>world := w', trace := trace s @ [ev]\<rparr>)
      | (Inr x, w') \<Rightarrow> (Inr x, s\<lparr>world := w', trace := trace s @ [ev]\<rparr>))"

definition call_total :: "event \<Rightarrow> ('w \<Rightarrow> 'a \<times> 'w) \<Rightarrow> ('w, 'a) prog" where
  "call_total ev f s =
     (case f (world s) of (x, w') \<Rightarrow> (Inr x, s\<lparr>world := w', trace := trace s @ [ev]\<rparr>))"

text \<open>A pure library function that may raise.\<close>

definition lift :: "string + 'a \<Rightarrow> ('w, 'a) prog" where
  "lift r = (case r of Inl n \<Rightarrow> raise (HostError n) | Inr x \<Rightarrow> ret x)"

text \<open>
  Logging: \<^verbatim>\<open>logging\<close> handlers swallow their own errors, so a logging call returns; what it
  writes is not read back by the program.
\<close>

definition logger_info :: "lmsg \<Rightarrow> ('w, unit) prog" where
  "logger_info m s = (Inr (), s\<lparr>trace := trace s @ [LogInfo m]\<rparr>)"

definition logger_error :: "lmsg \<Rightarrow> ('w, unit) prog" where
  "logger_error m s = (Inr (), s\<lparr>trace := trace s @ [LogError m]\<rparr>)"

definition sleep :: "'w env \<Rightarrow> nat \<Rightarrow> ('w, unit) prog" where
  "sleep env n = call_total (Sleep n) (\<lambda>w. ((), time_sleep env n w))"

definition execute_script :: "'w env \<Rightarrow> string \<Rightarrow> elem list \<Rightarrow> ('w, unit) prog" where
  "execute_script env script args = call (ExecuteScript script args) (drv_execute_script env script args)"

definition until :: "'w env \<Rightarrow> int \<Rightarrow> cond \<Rightarrow> ('w, elem) prog" where
  "until env t c = call (WaitUntil t c) (wdw_until env t c)"

definition find_element :: "'w env \<Rightarrow> By \<Rightarrow> string \<Rightarrow> ('w, elem) prog" where
  "find_element env b v = call (FindElement b v) (drv_find_element env b v)"

definition get_attribute :: "'w env \<Rightarrow> elem \<Rightarrow> string \<Rightarrow> ('w, string option) prog" where
  "get_attribute env el n = call (GetAttribute el n) (el_get_attribute env el n)"

definition current_url :: "'w env \<Rightarrow> ('w, string) prog" where
  "current_url env = call CurrentUrl (drv_current_url env)"

definition strftime :: "'w env \<Rightarrow> string \<Rightarrow> ('w, string) prog" where
  "strftime env fmt = call_total (Strftime fmt) (time_strftime env fmt)"

section \<open>String functions of Python used by the program\<close>

text \<open>\<^verbatim>\<open>sub in s\<close> on strings.\<close>

fun py_in :: "string \<Rightarrow> string \<Rightarrow> bool" where
  "py_in sub [] = (sub = [])"
| "py_in sub (c # cs) = (take (length sub) (c # cs) = sub \<or> py_in sub cs)"

text \<open>\<^verbatim>\<open>s.startswith(p)\<close>\<close>

definition startswith :: "string \<Rightarrow> string \<Rightarrow> bool" where
  "startswith s p = (take (length p) s = p)"

text \<open>\<^verbatim>\<open>s.split(sep)\<close> for a separator of one character: never the empty list.\<close>

fun split :: "char \<Rightarrow> string \<Rightarrow> string list" where
  "split sep [] = [[]]"
| "split sep (c # cs) =
     (if c = sep then [] # split sep cs
      else (case split sep cs of p # ps \<Rightarrow> (c # p) # ps | [] \<Rightarrow> [[c]]))"

text \<open>\<^verbatim>\<open>xs[i]\<close> for an index that is not negative.\<close>

definition index :: "'a list \<Rightarrow> nat \<Rightarrow> ('w, 'a) prog" where
  "index xs i = (if i < length xs then ret (xs ! i) else raise IndexError)"

text \<open>
  \<^verbatim>\<open>os.path.dirname\<close> of \<^verbatim>\<open>posixpath\<close>: the part up to the last slash, without its trailing
  slashes unless it is slashes only.
\<close>

definition dirname :: "string \<Rightarrow> string" where
  "dirname p =
     (let head = rev (dropWhile (\<lambda>c. c \<noteq> CHR ''/'') (rev p))
      in if head \<noteq> [] \<and> \<not> list_all (\<lambda>c. c = CHR ''/'') head
         then rev (dropWhile (\<lambda>c. c = CHR ''/'') (rev head))
         else head)"

section \<open>\<^verbatim>\<open>PerfectPayPixGenerator\<close>\<close>

text \<open>The fields set by \<^verbatim>\<open>__init__\<close> that the methods read.\<close>

record generator =
  base_url :: string
  timeout :: int

subsection \<open>Construction (lines 33 to 139)\<close>

definition basic_args :: "string list" where
  "basic_args =
     [''--no-sandbox'', ''--disable-dev-shm-usage'', ''--disable-gpu'', ''--disable-extensions'',
      ''--disable-logging'', ''--log-level=3'', ''--silent'', ''--disable-default-apps'',
      ''--disable-background-timer-throttling'', ''--disable-background-networking'',
      ''--disable-backgrounding-occluded-windows'', ''--disable-renderer-backgrounding'',
      ''--disable-features=TranslateUI'', ''--disable-ipc-flooding-protection'',
      ''--disable-web-security'', ''--disable-features=VizDisplayCompositor'',
      ''--enable-unsafe-swiftshader'']"

text \<open>\<^verbatim>\<open>if user_agent:\<close> holds for a string that is neither \<^verbatim>\<open>None\<close> nor empty.\<close>

definition create_chrome_options :: "bool \<Rightarrow> string option \<Rightarrow> options" where
  "create_chrome_options headless user_agent =
     \<lparr>arguments =
        (if headless then [''--headless''] else []) @ basic_args
        @ [''--disable-blink-features=AutomationControlled'']
        @ (case user_agent of
             None \<Rightarrow> []
           | Some ua \<Rightarrow> if ua = [] then [] else [''user-agent='' @ ua]),
      experimental_options =
        [(''excludeSwitches'', OptList [''enable-automation'']),
         (''useAutomationExtension'', OptBool False)]\<rparr>"

definition webdriver_script :: string where
  "webdriver_script =
     ''Object.defineProperty(navigator, '' @ [CHR 0x27] @ ''webdriver'' @ [CHR 0x27]
     @ '', {get: () => undefined})''"

definition remove_automation_properties :: "'w env \<Rightarrow> ('w, unit) prog" where
  "remove_automation_properties env = execute_script env webdriver_script []"

definition setup_driver :: "'w env \<Rightarrow> bool \<Rightarrow> string option \<Rightarrow> ('w, unit) prog" where
  "setup_driver env headless user_agent =
     (let chrome_options = create_chrome_options headless user_agent in
      nxt (call (Chrome chrome_options) (webdriver_Chrome env chrome_options))
          (remove_automation_properties env))"

definition ensure_dir :: "'w env \<Rightarrow> string \<Rightarrow> ('w, unit) prog" where
  "ensure_dir env p =
     bnd (call_total (PathExists p) (os_path_exists env p))
         (\<lambda>ex. if \<not> ex then call (Makedirs p) (os_makedirs env p) else ret ())"

definition create_logs_dir :: "'w env \<Rightarrow> ('w, unit) prog" where
  "create_logs_dir env =
     nxt (ensure_dir env ''logs'')
    (nxt (ensure_dir env ''images'')
    (nxt (ensure_dir env ''images/prints'')
    (bnd (call_total (PathExists ''logs/generate_qrcode_pix.log'')
            (os_path_exists env ''logs/generate_qrcode_pix.log''))
         (\<lambda>ex. if \<not> ex
                then call (OpenWrite ''logs/generate_qrcode_pix.log'' [])
                       (open_write env ''logs/generate_qrcode_pix.log'' [])
                else ret ()))))"

definition setup_logging :: "'w env \<Rightarrow> ('w, unit) prog" where
  "setup_logging env = call BasicConfig (logging_basicConfig env)"

text \<open>\<^verbatim>\<open>__init__\<close>: the constructed object, or the exception that construction raised.\<close>

definition init :: "'w env \<Rightarrow> string \<Rightarrow> bool \<Rightarrow> string option \<Rightarrow> int \<Rightarrow> ('w, generator) prog" where
  "init env url headless user_agent t =
     nxt (setup_driver env headless user_agent)
    (nxt (create_logs_dir env)
    (nxt (setup_logging env)
         (ret \<lparr>base_url = url, timeout = t\<rparr>)))"

subsection \<open>Diagnostic screenshots (lines 343 to 358)\<close>

text \<open>The file name built at line 347.\<close>

definition screenshot_file :: "string \<Rightarrow> string \<Rightarrow> string" where
  "screenshot_file filename timestamp = ''images/prints/'' @ filename @ ''_'' @ timestamp @ ''.png''"

definition take_screenshot :: "'w env \<Rightarrow> string \<Rightarrow> ('w, unit) prog" where
  "take_screenshot env filename =
     try_except
       (bnd (strftime env ''%Y%m%d_%H%M%S'') (\<lambda>timestamp.
          let full_filename = screenshot_file filename timestamp;
              dir_path = dirname full_filename
          in bnd (call_total (PathExists dir_path) (os_path_exists env dir_path)) (\<lambda>ex.
             nxt (if \<not> ex then call (Makedirs dir_path) (os_makedirs env dir_path) else ret ())
            (nxt (call (SaveScreenshot full_filename) (drv_save_screenshot env full_filename))
                 (logger_info (ScreenshotSaved full_filename))))))
       (\<lambda>e. logger_error (ScreenshotError e))"

subsection \<open>The steps of the checkout (lines 192 to 291)\<close>

definition navigate_to_checkout ::
  "'w env \<Rightarrow> generator \<Rightarrow> string \<Rightarrow> string \<Rightarrow> string \<Rightarrow> ('w, unit) prog" where
  "navigate_to_checkout env self email name phone =
     (let url = base_url self @ ''?email='' @ email @ ''&name='' @ name @ ''&phone='' @ phone in
      nxt (call (Get url) (drv_get env url))
     (nxt (sleep env 1)
          (logger_info (NavigatingCheckout url))))"

definition fill_cpf_field :: "'w env \<Rightarrow> generator \<Rightarrow> string \<Rightarrow> ('w, unit) prog" where
  "fill_cpf_field env self cpf =
     bnd (until env (timeout self) (presence_of_element_located By_ID ''identification-number''))
       (\<lambda>cpf_field.
          nxt (call (SendKeys cpf_field cpf) (el_send_keys env cpf_field cpf))
              (logger_info CpfFilled))"

text \<open>The alternative attempt of lines 228 to 233, inside the handler of line 225.\<close>

definition finish_purchase_alternative :: "'w env \<Rightarrow> ('w, unit) prog" where
  "finish_purchase_alternative env =
     try_except
       (bnd (find_element env By_ID ''finish-buy-btn'') (\<lambda>finish_btn.
          nxt (execute_script env ''arguments[0].click();'' [finish_btn])
              (logger_info ClickedWithJavaScript)))
       (\<lambda>_. raise FinishClickFailed)"

definition finish_purchase :: "'w env \<Rightarrow> generator \<Rightarrow> ('w, unit) prog" where
  "finish_purchase env self =
     try_except
       (bnd (until env (timeout self) (element_to_be_clickable By_ID ''finish-buy-btn''))
          (\<lambda>finish_btn.
             nxt (execute_script env ''arguments[0].scrollIntoView(true);'' [finish_btn])
            (nxt (sleep env 1)
            (nxt (try_except
                    (call (Click finish_btn) (el_click env finish_btn))
                    (\<lambda>_. execute_script env ''arguments[0].click();'' [finish_btn]))
                 (logger_info FinishClicked)))))
       (\<lambda>e. nxt (logger_error (FinishClickError e))
               (finish_purchase_alternative env))"

text \<open>
  The three XPath locators of line 241 to 245, in the order of the source. The third one is
  written as in the source, where its predicate is not closed by a bracket; \<open>CHR 0xE1\<close> is the
  letter a with an acute accent.
\<close>

definition pix_selectors :: "string list" where
  "pix_selectors =
     [''//a[contains(@class, '' @ [CHR 0x27] @ ''btn-primary'' @ [CHR 0x27]
        @ '') and contains(text(), '' @ [CHR 0x27] @ ''Abrir'' @ [CHR 0x27] @ '')]'',
      ''//a[contains(@href, '' @ [CHR 0x27] @ ''/payments/thanks'' @ [CHR 0x27] @ '')]'',
      ''//a[contains(., '' @ [CHR 0x27] @ ''Abrir'' @ [CHR 0x27]
        @ '') and contains(., '' @ [CHR 0x27] @ ''Pix'' @ [CHR 0x27]
        @ '') and contains(., '' @ [CHR 0x27] @ ''j'' @ [CHR 0xE1] @ '' gerado'' @ [CHR 0x27]
        @ '')'']"

text \<open>
  The loop of lines 247 to 253: \<^verbatim>\<open>pix_button\<close> is \<^verbatim>\<open>None\<close> until a lookup returns
  (\<^verbatim>\<open>break\<close>); a lookup that raises goes on with the next locator (\<^verbatim>\<open>continue\<close>).
\<close>

fun find_pix_button :: "'w env \<Rightarrow> string list \<Rightarrow> ('w, elem option) prog" where
  "find_pix_button env [] s = (Inr None, s)"
| "find_pix_button env (selector # selectors) s =
     (case find_element env By_XPATH selector s of
        (Inr pix_button, s') \<Rightarrow> (Inr (Some pix_button), s')
      | (Inl _, s') \<Rightarrow> find_pix_button env selectors s')"

definition handle_existing_pix :: "'w env \<Rightarrow> ('w, unit) prog" where
  "handle_existing_pix env =
     nxt (sleep env 3)
       (try_except
          (bnd (find_pix_button env pix_selectors) (\<lambda>pix_button.
             case pix_button of
               Some button \<Rightarrow>
                 nxt (logger_info ExistingPixDetected)
                (nxt (execute_script env ''arguments[0].scrollIntoView(true);'' [button])
                (nxt (sleep env 1)
                (nxt (execute_script env ''arguments[0].click();'' [button])
                     (sleep env 3))))
             | None \<Rightarrow> logger_info NoExistingPix))
          (\<lambda>e. logger_info (ExistingPixError e)))"

definition capture_qr_code :: "'w env \<Rightarrow> ('w, string option) prog" where
  "capture_qr_code env =
     nxt (sleep env 3)
    (bnd (current_url env) (\<lambda>url.
     nxt (if py_in ''/payment/'' url
          then nxt (logger_info AwaitingRedirect)
              (nxt (sleep env 5)
              (bnd (current_url env) (\<lambda>url'. logger_info (UrlAfterWait url'))))
          else ret ())
         (try_except
            (bnd (until env 15 (presence_of_element_located By_ID ''qrCode'')) (\<lambda>qr_element.
             bnd (get_attribute env qr_element ''value'') (\<lambda>qr_code.
             nxt (logger_info QrCaptured)
                 (ret qr_code))))
            (\<lambda>_. nxt (logger_error QrNotFoundAfter15s)
                (nxt (take_screenshot env ''qr_code_not_found'')
                     (raise QrCodeNotFound))))))"

subsection \<open>The QR image (lines 293 to 341)\<close>

definition img_selector :: string where
  "img_selector = ''img[src*='' @ [CHR 0x27] @ ''data:image'' @ [CHR 0x27] @ '']''"

definition qr_filename :: "string \<Rightarrow> string \<Rightarrow> string" where
  "qr_filename cpf timestamp = ''images/qrcode_pix_'' @ cpf @ ''_'' @ timestamp @ ''.png''"

text \<open>
  Lines 315 to 337, for a source \<open>img_src\<close> that passed the test of line 311.
\<close>

definition save_qr_image :: "'w env \<Rightarrow> string \<Rightarrow> string \<Rightarrow> ('w, string option) prog" where
  "save_qr_image env cpf img_src =
     bnd (index (split CHR '','' img_src) 1) (\<lambda>base64_data.
     bnd (lift (base64_b64decode env base64_data)) (\<lambda>image_bytes.
     bnd (lift (Image_open env image_bytes)) (\<lambda>image.
     bnd (strftime env ''%Y%m%d_%H%M%S'') (\<lambda>timestamp.
     let filename = qr_filename cpf timestamp in
     nxt (call (ImageSave image filename) (image_save env image filename))
    (nxt (call (Print PrintCaptured) (py_print env PrintCaptured))
    (nxt (call (Print (PrintSavedFile filename)) (py_print env (PrintSavedFile filename)))
    (nxt (call (Print (PrintDimensions (width image) (height image)))
            (py_print env (PrintDimensions (width image) (height image))))
    (nxt (call (Print (PrintSize (length image_bytes)))
            (py_print env (PrintSize (length image_bytes))))
    (nxt (call (Print PrintSaved) (py_print env PrintSaved))
    (nxt (logger_info (ImageSaved filename))
         (ret (Some base64_data))))))))))))"

definition capture_and_display_qr_image :: "'w env \<Rightarrow> string \<Rightarrow> ('w, string option) prog" where
  "capture_and_display_qr_image env cpf =
     try_except
       (nxt (logger_info CapturingImage)
       (bnd (until env 15 (presence_of_element_located By_CSS_SELECTOR img_selector)) (\<lambda>qr_image.
        bnd (get_attribute env qr_image ''src'') (\<lambda>img_src.
          case img_src of
            None \<Rightarrow> nxt (logger_error ImageInvalid) (ret None)
          | Some src \<Rightarrow>
              if src = [] \<or> \<not> startswith src ''data:image''
              then nxt (logger_error ImageInvalid) (ret None)
              else save_qr_image env cpf src))))
       (\<lambda>e. nxt (logger_error (ImageCaptureError e)) (ret None))"

subsection \<open>\<^verbatim>\<open>generate_pix\<close> (lines 141 to 190)\<close>

text \<open>Lines 164 to 179 of the \<^verbatim>\<open>try\<close> block: the steps up to the token.\<close>

definition token_steps ::
  "'w env \<Rightarrow> generator \<Rightarrow> string \<Rightarrow> string \<Rightarrow> string \<Rightarrow> string \<Rightarrow> ('w, string option) prog" where
  "token_steps env self email name phone cpf =
     nxt (logger_info (Starting email))
    (nxt (navigate_to_checkout env self email name phone)
    (nxt (fill_cpf_field env self cpf)
    (nxt (finish_purchase env self)
    (nxt (handle_existing_pix env)
         (capture_qr_code env)))))"

text \<open>The whole \<^verbatim>\<open>try\<close> block, lines 164 to 185.\<close>

definition generate_pix_try ::
  "'w env \<Rightarrow> generator \<Rightarrow> string \<Rightarrow> string \<Rightarrow> string \<Rightarrow> string \<Rightarrow> ('w, string option) prog" where
  "generate_pix_try env self email name phone cpf =
     bnd (token_steps env self email name phone cpf) (\<lambda>qr_code.
     bnd (capture_and_display_qr_image env cpf) (\<lambda>qr_image_base64.
     nxt (logger_info (GeneratedOk email))
         (ret qr_code)))"

text \<open>
  The handler, lines 187 to 190, and the method. The result is \<open>Some t\<close> for the Python
  string \<open>t\<close> and \<open>None\<close> for Python's \<^verbatim>\<open>None\<close>; \<open>Some []\<close> is the empty string
  returned at line 190.
\<close>

definition generate_pix_except :: "'w env \<Rightarrow> exn \<Rightarrow> ('w, string option) prog" where
  "generate_pix_except env e =
     nxt (logger_error (GenerateError e))
    (nxt (take_screenshot env ''error_screenshot'')
         (ret (Some [])))"

definition generate_pix ::
  "'w env \<Rightarrow> generator \<Rightarrow> string \<Rightarrow> string \<Rightarrow> string \<Rightarrow> string \<Rightarrow> ('w, string option) prog" where
  "generate_pix env self email name phone cpf =
     try_except
       (generate_pix_try env self email name phone cpf)
       (generate_pix_except env)"

subsection \<open>Other public methods (lines 360 to 383)\<close>

definition navigate_to :: "'w env \<Rightarrow> string \<Rightarrow> ('w, unit) prog" where
  "navigate_to env url = nxt (call (Get url) (drv_get env url)) (logger_info (NavigatingTo url))"

definition close :: "'w env \<Rightarrow> ('w, unit) prog" where
  "close env = nxt (call Quit (drv_quit env)) (logger_info BrowserClosed)"

section \<open>Observations of a run\<close>

text \<open>
  What a claim observes of a trace: the files of the screenshots requested, the URLs navigated
  to, the executions of the script of \<^verbatim>\<open>_remove_automation_properties\<close>. An event is
  quiet when it is none of these and does not launch a browser. A program returns when no run
  of it raises; it is silent for an observation when no run of it adds to the observation.
\<close>

definition screenshot_of :: "event \<Rightarrow> string list" where
  "screenshot_of ev = (case ev of SaveScreenshot f \<Rightarrow> [f] | _ \<Rightarrow> [])"

definition navigation_of :: "event \<Rightarrow> string list" where
  "navigation_of ev = (case ev of Get url \<Rightarrow> [url] | _ \<Rightarrow> [])"

definition patch_of :: "event \<Rightarrow> unit list" where
  "patch_of ev =
     (case ev of
        ExecuteScript script args \<Rightarrow> if script = webdriver_script then [()] else []
      | _ \<Rightarrow> [])"

definition observe :: "(event \<Rightarrow> 'b list) \<Rightarrow> event list \<Rightarrow> 'b list" where
  "observe f tr = concat (map f tr)"

definition quiet :: "event \<Rightarrow> bool" where
  "quiet ev =
     (screenshot_of ev = [] \<and> navigation_of ev = [] \<and> patch_of ev = []
      \<and> (case ev of Chrome _ \<Rightarrow> False | _ \<Rightarrow> True))"

definition returns :: "('w, 'a) prog \<Rightarrow> bool" where
  "returns p = (\<forall>s. \<exists>x s'. p s = (Inr x, s'))"

definition silent :: "(event \<Rightarrow> 'b list) \<Rightarrow> ('w, 'a) prog \<Rightarrow> bool" where
  "silent f p = (\<forall>s. observe f (trace (snd (p s))) = observe f (trace s))"






section \<open>A simulated checkout\<close>

text \<open>
  Concrete environments, on which the theorems are run. The simulated world counts the
  scripts executed so far and keeps the files written by the image library.
\<close>

record sim =
  script_calls :: nat
  files :: "(string \<times> bytes) list"

definition sim0 :: "sim state" where
  "sim0 = \<lparr>world = \<lparr>script_calls = 0, files = []\<rparr>, trace = []\<rparr>"

definition shop_url :: string where
  "shop_url = ''https://checkout.perfectpay.com.br/pay/PPU38CQ''"

definition shop_self :: generator where
  "shop_self = \<lparr>base_url = shop_url, timeout = 10\<rparr>"

definition shop_token :: string where
  "shop_token = ''00020126...6304ABCD''"

text \<open>A GIF picture of one pixel (42 bytes), its base64 text and the data URI of it.\<close>

definition gif_bytes :: bytes where
  "gif_bytes =
     [0x47, 0x49, 0x46, 0x38, 0x39, 0x61, 0x01, 0x00, 0x01, 0x00, 0x80, 0x00, 0x00, 0x00,
      0x00, 0x00, 0xFF, 0xFF, 0xFF, 0x21, 0xF9, 0x04, 0x01, 0x00, 0x00, 0x00, 0x00, 0x2C,
      0x00, 0x00, 0x00, 0x00, 0x01, 0x00, 0x01, 0x00, 0x00, 0x02, 0x01, 0x44, 0x00, 0x3B]"

definition gif_base64 :: string where
  "gif_base64 = ''R0lGODlhAQABAIAAAAAAAP///yH5BAEAAAAALAAAAAABAAEAAAIBRAA7''"

definition gif_src :: string where
  "gif_src = ''data:image/gif;base64,'' @ gif_base64"

text \<open>
  A PNG file of the same picture (85 bytes: signature, IHDR, PLTE, IDAT, IEND), which is what
  an image library writes for a file name ending in \<^verbatim>\<open>.png\<close>.
\<close>

definition png_bytes :: bytes where
  "png_bytes =
     [0x89, 0x50, 0x4E, 0x47, 0x0D, 0x0A, 0x1A, 0x0A, 0x00, 0x00, 0x00, 0x0D, 0x49, 0x48,
      0x44, 0x52, 0x00, 0x00, 0x00, 0x01, 0x00, 0x00, 0x00, 0x01, 0x08, 0x03, 0x00, 0x00,
      0x00, 0x28, 0xCB, 0x34, 0xBB, 0x00, 0x00, 0x00, 0x06, 0x50, 0x4C, 0x54, 0x45, 0x00,
      0x00, 0x00, 0xFF, 0xFF, 0xFF, 0xA5, 0xD9, 0x9F, 0xDD, 0x00, 0x00, 0x00, 0x0A, 0x49,
      0x44, 0x41, 0x54, 0x78, 0x9C, 0x63, 0x60, 0x00, 0x00, 0x00, 0x02, 0x00, 0x01, 0x48,
      0xAF, 0xA4, 0x71, 0x00, 0x00, 0x00, 0x00, 0x49, 0x45, 0x4E, 0x44, 0xAE, 0x42, 0x60,
      0x82]"

text \<open>
  The checkout that works: the identification field is element 1, the finalize control
  element 2, the token field element 3 and the QR picture element 4; no link to an existing
  payment is on the page; nothing raises.
\<close>

definition shop_until :: "int \<Rightarrow> cond \<Rightarrow> sim \<Rightarrow> (string + elem) \<times> sim" where
  "shop_until t c w =
     (if c = presence_of_element_located By_ID ''identification-number'' then (Inr (WebElement 1), w)
      else if c = element_to_be_clickable By_ID ''finish-buy-btn'' then (Inr (WebElement 2), w)
      else if c = presence_of_element_located By_ID ''qrCode'' then (Inr (WebElement 3), w)
      else if c = presence_of_element_located By_CSS_SELECTOR img_selector then (Inr (WebElement 4), w)
      else (Inl ''TimeoutException'', w))"

definition shop_find_element :: "By \<Rightarrow> string \<Rightarrow> sim \<Rightarrow> (string + elem) \<times> sim" where
  "shop_find_element b v w =
     (if b = By_ID \<and> v = ''finish-buy-btn'' then (Inr (WebElement 2), w)
      else (Inl ''NoSuchElementException'', w))"

definition shop_get_attribute :: "elem \<Rightarrow> string \<Rightarrow> sim \<Rightarrow> (string + string option) \<times> sim" where
  "shop_get_attribute el n w =
     (if el = WebElement 3 \<and> n = ''value'' then (Inr (Some shop_token), w)
      else if el = WebElement 4 \<and> n = ''src'' then (Inr (Some gif_src), w)
      else (Inr None, w))"

definition shop :: "sim env" where
  "shop =
     \<lparr>webdriver_Chrome = (\<lambda>opts w. (Inr (), w)),
      drv_execute_script = (\<lambda>script args w. (Inr (), w\<lparr>script_calls := Suc (script_calls w)\<rparr>)),
      drv_get = (\<lambda>url w. (Inr (), w)),
      wdw_until = shop_until,
      drv_find_element = shop_find_element,
      el_send_keys = (\<lambda>el keys w. (Inr (), w)),
      el_click = (\<lambda>el w. (Inr (), w)),
      el_get_attribute = shop_get_attribute,
      drv_current_url = (\<lambda>w. (Inr (shop_url @ ''/thanks''), w)),
      drv_save_screenshot = (\<lambda>filename w. (Inr True, w)),
      drv_quit = (\<lambda>w. (Inr (), w)),
      time_sleep = (\<lambda>n w. w),
      time_strftime = (\<lambda>fmt w. (''20250101_120000'', w)),
      os_path_exists = (\<lambda>p w. (True, w)),
      os_makedirs = (\<lambda>p w. (Inr (), w)),
      open_write = (\<lambda>p text w. (Inr (), w)),
      logging_basicConfig = (\<lambda>w. (Inr (), w)),
      base64_b64decode = (\<lambda>data. if data = gif_base64 then Inr gif_bytes else Inl ''binascii.Error''),
      Image_open = (\<lambda>b. if b = gif_bytes then Inr (Image 1 1 [0]) else Inl ''UnidentifiedImageError''),
      image_save = (\<lambda>image filename w. (Inr (), w\<lparr>files := (filename, png_bytes) # files w\<rparr>)),
      py_print = (\<lambda>m w. (Inr (), w))\<rparr>"

text \<open>
  The same checkout, where the element with id \<^verbatim>\<open>qrCode\<close> is not a form field: no element
  has a \<^verbatim>\<open>value\<close> or a \<^verbatim>\<open>src\<close>, and \<^verbatim>\<open>get_attribute\<close> answers \<^verbatim>\<open>None\<close>.
\<close>

definition shop_no_value :: "sim env" where
  "shop_no_value = shop\<lparr>el_get_attribute := (\<lambda>el n w. (Inr None, w))\<rparr>"

text \<open>The same checkout, where the QR picture never appears.\<close>

definition shop_no_image :: "sim env" where
  "shop_no_image =
     shop\<lparr>wdw_until := (\<lambda>t c w.
       if c = presence_of_element_located By_CSS_SELECTOR img_selector
       then (Inl ''TimeoutException'', w) else shop_until t c w)\<rparr>"






text \<open>
  Two checkouts where the native click on the finalize control is intercepted. On the first
  the scripted click works. On the second the page also refuses the first scripted click (the
  second script executed) and accepts the next one.
\<close>

definition shop_intercepted :: "sim env" where
  "shop_intercepted = shop\<lparr>el_click := (\<lambda>el w. (Inl ''ElementClickInterceptedException'', w))\<rparr>"

definition shop_stubborn :: "sim env" where
  "shop_stubborn =
     shop\<lparr>el_click := (\<lambda>el w. (Inl ''ElementClickInterceptedException'', w)),
          drv_execute_script := (\<lambda>script args w.
            (if script = ''arguments[0].click();'' \<and> script_calls w = 1
             then Inl ''JavascriptException'' else Inr (),
             w\<lparr>script_calls := Suc (script_calls w)\<rparr>))\<rparr>"


text \<open>
  The checkout that shows the token while its URL stays the one of the intermediate payment
  page.
\<close>

definition stalled_url :: string where
  "stalled_url = ''https://checkout.perfectpay.com.br/payment/PPU38CQ''"

definition shop_stalled :: "sim env" where
  "shop_stalled = shop\<lparr>drv_current_url := (\<lambda>w. (Inr stalled_url, w))\<rparr>"

section \<open>Programs that return, programs that are silent\<close>

lemma returns_ret: "returns (ret x)"
  by (simp add: returns_def ret_def)

lemma returns_logger_info: "returns (logger_info m)"
  by (simp add: returns_def logger_info_def)

lemma returns_logger_error: "returns (logger_error m)"
  by (simp add: returns_def logger_error_def)

lemma returns_call_total: "returns (call_total ev f)"
  by (simp add: returns_def call_total_def split: prod.splits)

lemma returns_sleep: "returns (sleep env n)"
  by (simp add: sleep_def returns_call_total)

lemma returns_bnd: "returns m \<Longrightarrow> (\<And>x. returns (f x)) \<Longrightarrow> returns (bnd m f)"
  unfolding returns_def bnd_def
  by (metis (mono_tags, lifting) old.prod.case sum.simps(6))

lemma returns_nxt: "returns m \<Longrightarrow> returns n \<Longrightarrow> returns (nxt m n)"
  by (simp add: nxt_def returns_bnd)

lemma returns_try_except: "(\<And>e. returns (h e)) \<Longrightarrow> returns (try_except m h)"
  unfolding returns_def try_except_def
  by (auto split: prod.splits sum.splits)

lemma returns_take_screenshot: "returns (take_screenshot env tag)"
  unfolding take_screenshot_def
  by (intro returns_try_except returns_logger_error)

lemma returns_handle_existing_pix: "returns (handle_existing_pix env)"
  unfolding handle_existing_pix_def
  by (intro returns_nxt returns_sleep returns_try_except returns_logger_info)

lemma observe_snoc: "observe f (tr @ [ev]) = observe f tr @ f ev"
  by (simp add: observe_def)

lemma silent_ret: "silent f (ret x)"
  by (simp add: silent_def ret_def)

lemma silent_raise: "silent f (raise e)"
  by (simp add: silent_def raise_def)

lemma silent_bnd: "silent f m \<Longrightarrow> (\<And>x. silent f (g x)) \<Longrightarrow> silent f (bnd m g)"
  unfolding silent_def bnd_def
  by (auto split: prod.splits sum.splits) (metis snd_conv)+

lemma silent_nxt: "silent f m \<Longrightarrow> silent f n \<Longrightarrow> silent f (nxt m n)"
  by (simp add: nxt_def silent_bnd)

lemma silent_try_except: "silent f m \<Longrightarrow> (\<And>e. silent f (h e)) \<Longrightarrow> silent f (try_except m h)"
  unfolding silent_def try_except_def
  by (auto split: prod.splits sum.splits) (metis snd_conv)+

lemma silent_call: "f ev = [] \<Longrightarrow> silent f (call ev op)"
  by (auto simp: silent_def call_def observe_snoc split: prod.splits sum.splits)

lemma silent_call_total: "f ev = [] \<Longrightarrow> silent f (call_total ev op)"
  by (auto simp: silent_def call_total_def observe_snoc split: prod.splits)

lemma silent_logger_info: "f (LogInfo m) = [] \<Longrightarrow> silent f (logger_info m)"
  by (simp add: silent_def logger_info_def observe_snoc)

lemma silent_logger_error: "f (LogError m) = [] \<Longrightarrow> silent f (logger_error m)"
  by (simp add: silent_def logger_error_def observe_snoc)

lemma silent_lift: "silent f (lift r)"
  by (cases r) (simp_all add: lift_def silent_ret silent_raise)

lemma silent_index: "silent f (index xs i)"
  by (simp add: index_def silent_ret silent_raise)

lemma silent_if: "silent f p \<Longrightarrow> silent f q \<Longrightarrow> silent f (if c then p else q)"
  by simp

lemmas silent_intros =
  silent_ret silent_raise silent_bnd silent_nxt silent_try_except silent_call silent_call_total
  silent_logger_info silent_logger_error silent_lift silent_index silent_if

lemma quiet_simps:
  "quiet (WaitUntil t c)" "quiet (FindElement b v)" "quiet (SendKeys el k)" "quiet (Click el)"
  "quiet (GetAttribute el n)" "quiet CurrentUrl" "quiet (Sleep k')" "quiet (Strftime fmt)"
  "quiet (PathExists p)" "quiet (Makedirs p)" "quiet (ImageSave img p)" "quiet (Print pm)"
  "quiet (LogInfo m)" "quiet (LogError m)"
  "quiet (ExecuteScript ''arguments[0].scrollIntoView(true);'' args)"
  "quiet (ExecuteScript ''arguments[0].click();'' args)"
  by (simp_all add: quiet_def screenshot_of_def navigation_of_def patch_of_def webdriver_script_def)

lemma silent_find_pix_button:
  assumes "\<And>ev. quiet ev \<Longrightarrow> f ev = []"
  shows "silent f (find_pix_button env selectors)"
  unfolding silent_def
proof (induction selectors)
  case Nil
  show ?case by simp
next
  case (Cons selector selectors)
  have "f (FindElement By_XPATH selector) = []"
    by (simp add: assms quiet_simps)
  with Cons show ?case
    by (auto simp: find_element_def call_def observe_snoc split: prod.splits sum.splits)
qed

lemma silent_fill_cpf_field:
  assumes "\<And>ev. quiet ev \<Longrightarrow> f ev = []"
  shows "silent f (fill_cpf_field env self cpf)"
  unfolding fill_cpf_field_def until_def
  by (intro silent_intros) (simp_all add: assms quiet_simps)

lemma silent_finish_purchase:
  assumes "\<And>ev. quiet ev \<Longrightarrow> f ev = []"
  shows "silent f (finish_purchase env self)"
  unfolding finish_purchase_def finish_purchase_alternative_def until_def execute_script_def
    sleep_def find_element_def
  by (intro silent_intros) (simp_all add: assms quiet_simps)

lemma silent_handle_existing_pix:
  assumes "\<And>ev. quiet ev \<Longrightarrow> f ev = []"
  shows "silent f (handle_existing_pix env)"
proof -
  have "silent f (case b of
          Some button \<Rightarrow>
            nxt (logger_info ExistingPixDetected)
           (nxt (execute_script env ''arguments[0].scrollIntoView(true);'' [button])
           (nxt (sleep env 1)
           (nxt (execute_script env ''arguments[0].click();'' [button])
                (sleep env 3))))
        | None \<Rightarrow> logger_info NoExistingPix)" for b
    unfolding execute_script_def sleep_def
    by (cases b; simp; intro silent_intros; simp add: assms quiet_simps)
  then show ?thesis
    unfolding handle_existing_pix_def sleep_def
    by (intro silent_intros silent_find_pix_button) (simp_all add: assms quiet_simps)
qed

lemma silent_save_qr_image:
  assumes "\<And>ev. quiet ev \<Longrightarrow> f ev = []"
  shows "silent f (save_qr_image env cpf src)"
  unfolding save_qr_image_def strftime_def Let_def
  by (intro silent_intros) (simp_all add: assms quiet_simps)

lemma silent_capture_and_display_qr_image:
  assumes "\<And>ev. quiet ev \<Longrightarrow> f ev = []"
  shows "silent f (capture_and_display_qr_image env cpf)"
proof -
  have "silent f (case img_src of
            None \<Rightarrow> nxt (logger_error ImageInvalid) (ret None)
          | Some src \<Rightarrow>
              if src = [] \<or> \<not> startswith src ''data:image''
              then nxt (logger_error ImageInvalid) (ret None)
              else save_qr_image env cpf src)" for img_src
    by (cases img_src; simp; intro conjI impI silent_intros silent_save_qr_image; simp add: assms quiet_simps)
  then show ?thesis
    unfolding capture_and_display_qr_image_def until_def get_attribute_def
    by (intro silent_intros) (simp_all add: assms quiet_simps)
qed

subsection \<open>The existing-payment step\<close>

text \<open>
  Claim C10. \<^verbatim>\<open>_handle_existing_pix\<close> never raises, whatever the page does: in every
  environment and from every state it returns normally. An exception of a lookup is caught by
  the bare \<^verbatim>\<open>except\<close> of the loop, one of the scroll or of the click by the outer handler,
  which writes a log record; the step requests no screenshot.
\<close>

theorem handle_existing_pix_never_raises:
  "\<exists>s'. handle_existing_pix env s = (Inr (), s')
        \<and> observe screenshot_of (trace s') = observe screenshot_of (trace s)"
proof -
  obtain x s' where run: "handle_existing_pix env s = (Inr x, s')"
    using returns_handle_existing_pix [of env] unfolding returns_def by blast
  have "silent screenshot_of (handle_existing_pix env)"
    by (rule silent_handle_existing_pix) (simp add: quiet_def)
  then have "observe screenshot_of (trace (snd (handle_existing_pix env s))) = observe screenshot_of (trace s)"
    unfolding silent_def by blast
  with run show ?thesis by simp
qed

lemma nxt_assoc: "nxt (nxt a b) c = nxt a (nxt b c)"
  by (auto simp: nxt_def bnd_def fun_eq_iff split: prod.splits sum.splits)

lemma bnd_nxt: "bnd (nxt a b) k = nxt a (bnd b k)"
  by (auto simp: nxt_def bnd_def fun_eq_iff split: prod.splits sum.splits)

lemma silent_take_screenshot:
  assumes "\<And>ev. quiet ev \<Longrightarrow> f ev = []" and "\<And>fn. f (SaveScreenshot fn) = []"
  shows "silent f (take_screenshot env tag)"
  unfolding take_screenshot_def strftime_def Let_def
  by (intro silent_intros) (simp_all add: assms quiet_simps)

lemma silent_capture_qr_code:
  assumes "\<And>ev. quiet ev \<Longrightarrow> f ev = []" and "\<And>fn. f (SaveScreenshot fn) = []"
  shows "silent f (capture_qr_code env)"
  unfolding capture_qr_code_def sleep_def current_url_def until_def get_attribute_def
  by (intro silent_intros silent_take_screenshot) (simp_all add: assms quiet_simps)

lemma silent_generate_pix_except:
  assumes "\<And>ev. quiet ev \<Longrightarrow> f ev = []" and "\<And>fn. f (SaveScreenshot fn) = []"
  shows "silent f (generate_pix_except env e)"
  unfolding generate_pix_except_def
  by (intro silent_intros silent_take_screenshot) (simp_all add: assms quiet_simps)

lemma silent_after_get:
  assumes "\<And>ev. quiet ev \<Longrightarrow> f ev = []" and "\<And>fn. f (SaveScreenshot fn) = []"
  shows "silent f
     (nxt (sleep env 1)
     (nxt (logger_info (NavigatingCheckout url))
     (nxt (fill_cpf_field env self cpf)
     (nxt (finish_purchase env self)
     (nxt (handle_existing_pix env)
     (bnd (capture_qr_code env) (\<lambda>qr_code.
      bnd (capture_and_display_qr_image env cpf) (\<lambda>qr_image_base64.
      nxt (logger_info (GeneratedOk email))
          (ret qr_code)))))))))"
  unfolding sleep_def
  by (intro silent_intros silent_fill_cpf_field silent_finish_purchase silent_handle_existing_pix
        silent_capture_qr_code silent_capture_and_display_qr_image)
     (simp_all add: assms quiet_simps)

lemma generate_pix_from_get:
  "generate_pix env self email name phone cpf =
     (let url = base_url self @ ''?email='' @ email @ ''&name='' @ name @ ''&phone='' @ phone in
      try_except
        (nxt (logger_info (Starting email))
        (nxt (call (Get url) (drv_get env url))
        (nxt (sleep env 1)
        (nxt (logger_info (NavigatingCheckout url))
        (nxt (fill_cpf_field env self cpf)
        (nxt (finish_purchase env self)
        (nxt (handle_existing_pix env)
        (bnd (capture_qr_code env) (\<lambda>qr_code.
         bnd (capture_and_display_qr_image env cpf) (\<lambda>qr_image_base64.
         nxt (logger_info (GeneratedOk email))
             (ret qr_code)))))))))))
        (generate_pix_except env))"
  unfolding generate_pix_def generate_pix_try_def token_steps_def navigate_to_checkout_def Let_def
  by (simp only: nxt_assoc bnd_nxt)

lemma observe_first_call:
  assumes "silent f rest" and "\<And>e. silent f (h e)" and "f (LogInfo m) = []"
  shows "observe f (trace (snd (try_except (nxt (logger_info m) (nxt (call ev op) rest)) h s)))
         = observe f (trace s) @ f ev"
proof -
  let ?s0 = "s\<lparr>trace := trace s @ [LogInfo m]\<rparr>"
  obtain r w' where op: "op (world s) = (r, w')" by (cases "op (world s)")
  let ?s1 = "s\<lparr>world := w', trace := trace s @ [LogInfo m, ev]\<rparr>"
  have tr: "observe f (trace ?s1) = observe f (trace s) @ f ev"
    using assms(3) by (simp add: observe_def)
  show ?thesis
  proof (cases r)
    case (Inl n)
    then have "try_except (nxt (logger_info m) (nxt (call ev op) rest)) h s = h (HostError n) ?s1"
      using op by (simp add: try_except_def nxt_def bnd_def logger_info_def call_def)
    moreover have "observe f (trace (snd (h (HostError n) ?s1))) = observe f (trace ?s1)"
      using assms(2) unfolding silent_def by blast
    ultimately show ?thesis using tr by simp
  next
    case (Inr x)
    then have "try_except (nxt (logger_info m) (nxt (call ev op) rest)) h s = try_except rest h ?s1"
      using op by (simp add: try_except_def nxt_def bnd_def logger_info_def call_def)
    moreover have "silent f (try_except rest h)"
      using assms(1,2) by (rule silent_try_except)
    then have "observe f (trace (snd (try_except rest h ?s1))) = observe f (trace ?s1)"
      unfolding silent_def by blast
    ultimately show ?thesis using tr by simp
  qed
qed

subsection \<open>The checkout URL\<close>

text \<open>
  Claim C9. In every run of \<^verbatim>\<open>generate_pix\<close> the browser is sent to exactly one URL, the
  base URL followed by \<^verbatim>\<open>?email=\<close>, the email, \<^verbatim>\<open>&name=\<close>, the name,
  \<^verbatim>\<open>&phone=\<close> and the phone: the fields of the profile are inserted as they are, the
  program encodes nothing.
\<close>

theorem checkout_url_verbatim:
  "observe navigation_of (trace (snd (generate_pix env self email name phone cpf s))) =
   observe navigation_of (trace s)
   @ [base_url self @ ''?email='' @ email @ ''&name='' @ name @ ''&phone='' @ phone]"
proof -
  have q: "\<And>ev. quiet ev \<Longrightarrow> navigation_of ev = []"
    by (simp add: quiet_def)
  have sh: "\<And>fn. navigation_of (SaveScreenshot fn) = []"
    by (simp add: navigation_of_def)
  note rest = silent_after_get [of navigation_of, OF q sh]
  note handler = silent_generate_pix_except [of navigation_of, OF q sh]
  show ?thesis
    unfolding generate_pix_from_get Let_def
    by (subst observe_first_call [OF rest handler]) (simp_all add: navigation_of_def)
qed

text \<open>A name with an ampersand and a space reaches the browser as it is.\<close>

theorem checkout_url_verbatim_witness:
  "observe navigation_of
     (trace (snd (generate_pix shop shop_self ''a@b.com'' ''A & B'' ''1199999999'' ''12345678900'' sim0)))
   = [''https://checkout.perfectpay.com.br/pay/PPU38CQ?email=a@b.com&name=A & B&phone=1199999999'']"
  using checkout_url_verbatim [of shop shop_self "''a@b.com''" "''A & B''" "''1199999999''" "''12345678900''" sim0]
  by (simp add: sim0_def shop_self_def shop_url_def observe_def)

section \<open>Running a program on a concrete environment\<close>

text \<open>The equations that evaluate a run, for the simplifier.\<close>

lemmas prog_defs = ret_def raise_def bnd_def nxt_def try_except_def call_def call_total_def lift_def
  logger_info_def logger_error_def sleep_def execute_script_def until_def find_element_def
  get_attribute_def current_url_def strftime_def index_def Let_def

lemmas step_defs = generate_pix_def generate_pix_except_def generate_pix_try_def token_steps_def
  navigate_to_checkout_def fill_cpf_field_def finish_purchase_def
  finish_purchase_alternative_def handle_existing_pix_def
  pix_selectors_def capture_qr_code_def capture_and_display_qr_image_def save_qr_image_def
  startswith_def qr_filename_def take_screenshot_def screenshot_file_def dirname_def

lemmas shop_defs = shop_def shop_until_def shop_find_element_def shop_get_attribute_def sim0_def
  shop_self_def shop_url_def shop_token_def gif_src_def gif_base64_def img_selector_def

section \<open>The anti-detection script\<close>

lemma quiet_setup_simps: "quiet (OpenWrite p text)" "quiet BasicConfig"
  by (simp_all add: quiet_def screenshot_of_def navigation_of_def patch_of_def)

lemma silent_ensure_dir:
  assumes "\<And>ev. quiet ev \<Longrightarrow> f ev = []"
  shows "silent f (ensure_dir env p)"
  unfolding ensure_dir_def
  by (intro silent_intros) (simp_all add: assms quiet_simps)

lemma silent_create_logs_dir:
  assumes "\<And>ev. quiet ev \<Longrightarrow> f ev = []"
  shows "silent f (create_logs_dir env)"
  unfolding create_logs_dir_def
  by (intro silent_intros silent_ensure_dir) (simp_all add: assms quiet_simps quiet_setup_simps)

lemma silent_setup_logging:
  assumes "\<And>ev. quiet ev \<Longrightarrow> f ev = []"
  shows "silent f (setup_logging env)"
  unfolding setup_logging_def
  by (intro silent_intros) (simp_all add: assms quiet_setup_simps)

lemma silent_generate_pix:
  assumes "\<And>ev. quiet ev \<Longrightarrow> f ev = []" and "\<And>fn. f (SaveScreenshot fn) = []"
    and "\<And>url. f (Get url) = []"
  shows "silent f (generate_pix env self email name phone cpf)"
  unfolding generate_pix_def generate_pix_try_def token_steps_def navigate_to_checkout_def
    Let_def sleep_def
  by (intro silent_intros silent_fill_cpf_field silent_finish_purchase silent_handle_existing_pix
        silent_capture_qr_code silent_capture_and_display_qr_image silent_generate_pix_except)
     (simp_all add: assms quiet_simps)

lemma init_navigates_nowhere: "silent navigation_of (init env url headless user_agent t)"
  unfolding init_def setup_driver_def remove_automation_properties_def execute_script_def Let_def
  by (intro silent_intros silent_create_logs_dir silent_setup_logging)
     (simp_all add: navigation_of_def quiet_def)

lemma init_patches_once:
  "observe patch_of (trace (snd (init env url headless user_agent t s))) =
   observe patch_of (trace s)
   @ (case fst (webdriver_Chrome env (create_chrome_options headless user_agent) (world s)) of
        Inl n \<Rightarrow> [] | Inr u \<Rightarrow> [()])"
proof -
  let ?opts = "create_chrome_options headless user_agent"
  let ?rest = "nxt (create_logs_dir env) (nxt (setup_logging env) (ret \<lparr>base_url = url, timeout = t\<rparr>))"
  have rest: "silent patch_of ?rest"
    by (intro silent_intros silent_create_logs_dir silent_setup_logging) (simp_all add: quiet_def)
  obtain r w1 where launch: "webdriver_Chrome env ?opts (world s) = (r, w1)"
    by (cases "webdriver_Chrome env ?opts (world s)")
  show ?thesis
  proof (cases r)
    case (Inl n)
    with launch show ?thesis
      by (simp add: init_def setup_driver_def Let_def nxt_def bnd_def call_def observe_def patch_of_def)
  next
    case (Inr u)
    let ?s1 = "s\<lparr>world := w1, trace := trace s @ [Chrome ?opts]\<rparr>"
    obtain r2 w2 where patch: "drv_execute_script env webdriver_script [] w1 = (r2, w2)"
      by (cases "drv_execute_script env webdriver_script [] w1")
    let ?s2 = "s\<lparr>world := w2, trace := trace s @ [Chrome ?opts, ExecuteScript webdriver_script []]\<rparr>"
    have tr2: "observe patch_of (trace ?s2) = observe patch_of (trace s) @ [()]"
      by (simp add: observe_def patch_of_def)
    show ?thesis
    proof (cases r2)
      case (Inl n)
      with launch Inr patch have "init env url headless user_agent t s = (Inl (HostError n), ?s2)"
        by (simp add: init_def setup_driver_def remove_automation_properties_def execute_script_def
            Let_def nxt_def bnd_def call_def)
      with tr2 launch Inr show ?thesis by simp
    next
      case (Inr u2)
      with launch \<open>r = Inr u\<close> patch have "init env url headless user_agent t s = ?rest ?s2"
        by (simp add: init_def setup_driver_def remove_automation_properties_def execute_script_def
            Let_def nxt_def bnd_def call_def)
      moreover have "observe patch_of (trace (snd (?rest ?s2))) = observe patch_of (trace ?s2)"
        using rest unfolding silent_def by blast
      ultimately show ?thesis using tr2 launch \<open>r = Inr u\<close> by simp
    qed
  qed
qed

text \<open>
  Claim C8, as amended. The script that hides \<^verbatim>\<open>navigator.webdriver\<close> is executed by the
  constructor, once, right after the browser is launched (when the launch does not raise), and
  the constructor navigates nowhere: the script runs before any navigation. Neither
  \<^verbatim>\<open>generate_pix\<close> nor \<^verbatim>\<open>navigate_to\<close> executes it: it is not executed again after a
  navigation.
\<close>

theorem patch_only_at_construction:
  "observe patch_of (trace (snd (init env url headless user_agent t s))) =
     observe patch_of (trace s)
     @ (case fst (webdriver_Chrome env (create_chrome_options headless user_agent) (world s)) of
          Inl n \<Rightarrow> [] | Inr u \<Rightarrow> [()])
   \<and> observe navigation_of (trace (snd (init env url headless user_agent t s))) =
     observe navigation_of (trace s)
   \<and> observe patch_of (trace (snd (generate_pix env self email name phone cpf s'))) =
     observe patch_of (trace s')
   \<and> observe patch_of (trace (snd (navigate_to env url' s''))) = observe patch_of (trace s'')"
proof -
  have q: "\<And>ev. quiet ev \<Longrightarrow> patch_of ev = []"
    by (simp add: quiet_def)
  have "silent patch_of (generate_pix env self email name phone cpf)"
    by (rule silent_generate_pix) (simp_all add: q, simp_all add: patch_of_def)
  moreover have "silent patch_of (navigate_to env url')"
    unfolding navigate_to_def by (intro silent_intros) (simp_all add: patch_of_def)
  ultimately show ?thesis
    using init_patches_once [of env url headless user_agent t s]
      init_navigates_nowhere [of env url headless user_agent t]
    unfolding silent_def by blast
qed

text \<open>
  Claim C8 as stated fails. On the simulated checkout, constructing the generator and running
  \<^verbatim>\<open>generate_pix\<close> navigates once and executes the script once in all; from the navigation
  on, the trace holds no execution of the script.
\<close>

theorem patch_not_reinjected_counterexample:
  "(case init shop shop_url True None 10 sim0 of
      (Inl e, s1) \<Rightarrow> False
    | (Inr self, s1) \<Rightarrow>
        (let tr = trace (snd (generate_pix shop self ''a@b.com'' ''A B'' ''1199999999'' ''12345678900'' s1))
         in observe navigation_of tr
              = [''https://checkout.perfectpay.com.br/pay/PPU38CQ?email=a@b.com&name=A B&phone=1199999999'']
          \<and> observe patch_of tr = [()]
          \<and> observe patch_of (dropWhile (\<lambda>ev. navigation_of ev = []) tr) = []))"
  by (simp add: init_def setup_driver_def remove_automation_properties_def create_logs_dir_def
      ensure_dir_def setup_logging_def step_defs prog_defs shop_defs
      observe_def navigation_of_def patch_of_def webdriver_script_def)

section \<open>The result of \<^verbatim>\<open>generate_pix\<close>\<close>

lemma returns_capture_and_display_qr_image: "returns (capture_and_display_qr_image env cpf)"
  unfolding capture_and_display_qr_image_def
  by (intro returns_try_except returns_nxt returns_logger_error returns_ret)

lemma returns_generate_pix: "returns (generate_pix env self email name phone cpf)"
  unfolding generate_pix_def generate_pix_except_def
  by (intro returns_try_except returns_nxt returns_logger_error returns_take_screenshot returns_ret)

text \<open>
  \<^verbatim>\<open>generate_pix\<close> never raises. It returns the empty string when a step up to the token
  raised, and otherwise what the token step read from the page.
\<close>

lemma generate_pix_except_result: "\<exists>s'. generate_pix_except env e s = (Inr (Some []), s')"
proof -
  let ?s0 = "s\<lparr>trace := trace s @ [LogError (GenerateError e)]\<rparr>"
  obtain x s' where "take_screenshot env ''error_screenshot'' ?s0 = (Inr x, s')"
    using returns_take_screenshot [of env "''error_screenshot''"] unfolding returns_def by blast
  then show ?thesis
    by (simp add: generate_pix_except_def nxt_def bnd_def ret_def logger_error_def)
qed

lemma generate_pix_result:
  "\<exists>s'. generate_pix env self email name phone cpf s =
          (case token_steps env self email name phone cpf s of
             (Inl e, s1) \<Rightarrow> (Inr (Some []), s')
           | (Inr qr_code, s1) \<Rightarrow> (Inr qr_code, s'))"
proof (cases "token_steps env self email name phone cpf s")
  case (Pair r s1)
  show ?thesis
  proof (cases r)
    case (Inl e)
    obtain s' where h: "generate_pix_except env e s1 = (Inr (Some []), s')"
      using generate_pix_except_result [of env e s1] by blast
    with h Inl Pair show ?thesis
      by (simp add: generate_pix_def generate_pix_try_def try_except_def bnd_def)
  next
    case (Inr qr_code)
    obtain img s2 where "capture_and_display_qr_image env cpf s1 = (Inr img, s2)"
      using returns_capture_and_display_qr_image [of env cpf] unfolding returns_def by blast
    with Inr Pair show ?thesis
      by (simp add: generate_pix_def generate_pix_try_def try_except_def bnd_def nxt_def
          logger_info_def ret_def)
  qed
qed

text \<open>
  Claim C1. The claim says that \<^verbatim>\<open>generate_pix\<close> returns a non-empty token or the empty
  string, and never raises; the signature and the docstring of the method say the same (a
  \<^verbatim>\<open>str\<close>: the PIX code, or the empty string on error). It never raises
  (\<open>returns_generate_pix\<close>). But on a page whose element \<^verbatim>\<open>qrCode\<close> has no
  \<^verbatim>\<open>value\<close>, line 284 reads \<^verbatim>\<open>None\<close> and line 185 returns it: the result is neither a
  non-empty string nor the empty string.
\<close>

theorem generate_pix_returns_None:
  "fst (generate_pix shop_no_value shop_self ''a@b.com'' ''A B'' ''1199999999'' ''12345678900'' sim0)
   = Inr None"
  by (simp add: shop_no_value_def step_defs prog_defs shop_defs)

section \<open>The QR image is decoration\<close>

lemma image_absent:
  assumes "wdw_until env 15 (presence_of_element_located By_CSS_SELECTOR img_selector) (world s)
           = (Inl n, w)"
  shows "fst (capture_and_display_qr_image env cpf s) = Inr None"
  using assms by (simp add: capture_and_display_qr_image_def prog_defs)

lemma image_not_inline:
  assumes "wdw_until env 15 (presence_of_element_located By_CSS_SELECTOR img_selector) (world s)
           = (Inr el, w)"
    and "el_get_attribute env el ''src'' w = (Inr src, w')"
    and "case src of None \<Rightarrow> True | Some u \<Rightarrow> u = [] \<or> \<not> startswith u ''data:image''"
  shows "fst (capture_and_display_qr_image env cpf s) = Inr None"
  using assms by (auto simp: capture_and_display_qr_image_def prog_defs split: option.splits)

lemma image_decode_error:
  assumes "wdw_until env 15 (presence_of_element_located By_CSS_SELECTOR img_selector) (world s)
           = (Inr el, w)"
    and "el_get_attribute env el ''src'' w = (Inr (Some u), w')"
    and "u \<noteq> []" and "startswith u ''data:image''"
    and "split CHR '','' u = a # b # rest"
    and "base64_b64decode env b = Inl n"
  shows "fst (capture_and_display_qr_image env cpf s) = Inr None"
  using assms by (simp add: capture_and_display_qr_image_def save_qr_image_def prog_defs)

lemma image_save_error:
  assumes "wdw_until env 15 (presence_of_element_located By_CSS_SELECTOR img_selector) (world s)
           = (Inr el, w)"
    and "el_get_attribute env el ''src'' w = (Inr (Some u), w')"
    and "u \<noteq> []" and "startswith u ''data:image''"
    and "split CHR '','' u = a # b # rest"
    and "base64_b64decode env b = Inr image_bytes"
    and "Image_open env image_bytes = Inr img"
    and "time_strftime env ''%Y%m%d_%H%M%S'' w' = (timestamp, w'')"
    and "image_save env img (qr_filename cpf timestamp) w'' = (Inl n, w''')"
  shows "fst (capture_and_display_qr_image env cpf s) = Inr None"
  using assms by (simp add: capture_and_display_qr_image_def save_qr_image_def prog_defs)

text \<open>
  Claim C2. In a run where the steps up to the token returned the token, \<^verbatim>\<open>generate_pix\<close>
  returns that token, whatever the capture of the image does. The capture never raises, and
  its result is \<^verbatim>\<open>None\<close> when the picture is absent (the wait raises), when its source is
  missing, empty or not a \<^verbatim>\<open>data:image\<close> URI, when the base64 text does not decode, and
  when saving the file raises.
\<close>

theorem image_failure_keeps_token:
  assumes "token_steps env self email name phone cpf s = (Inr qr_code, s1)"
  shows "fst (generate_pix env self email name phone cpf s) = Inr qr_code
    \<and> (\<exists>r s2. capture_and_display_qr_image env cpf s1 = (Inr r, s2))
    \<and> (\<forall>n w. wdw_until env 15 (presence_of_element_located By_CSS_SELECTOR img_selector) (world s1)
             = (Inl n, w)
          \<longrightarrow> fst (capture_and_display_qr_image env cpf s1) = Inr None)
    \<and> (\<forall>el w src w'.
          wdw_until env 15 (presence_of_element_located By_CSS_SELECTOR img_selector) (world s1)
             = (Inr el, w)
          \<and> el_get_attribute env el ''src'' w = (Inr src, w')
          \<and> (case src of None \<Rightarrow> True | Some u \<Rightarrow> u = [] \<or> \<not> startswith u ''data:image'')
          \<longrightarrow> fst (capture_and_display_qr_image env cpf s1) = Inr None)
    \<and> (\<forall>el w u w' a b rest n.
          wdw_until env 15 (presence_of_element_located By_CSS_SELECTOR img_selector) (world s1)
             = (Inr el, w)
          \<and> el_get_attribute env el ''src'' w = (Inr (Some u), w')
          \<and> u \<noteq> [] \<and> startswith u ''data:image''
          \<and> split CHR '','' u = a # b # rest
          \<and> base64_b64decode env b = Inl n
          \<longrightarrow> fst (capture_and_display_qr_image env cpf s1) = Inr None)
    \<and> (\<forall>el w u w' a b rest image_bytes img timestamp w'' n w'''.
          wdw_until env 15 (presence_of_element_located By_CSS_SELECTOR img_selector) (world s1)
             = (Inr el, w)
          \<and> el_get_attribute env el ''src'' w = (Inr (Some u), w')
          \<and> u \<noteq> [] \<and> startswith u ''data:image''
          \<and> split CHR '','' u = a # b # rest
          \<and> base64_b64decode env b = Inr image_bytes
          \<and> Image_open env image_bytes = Inr img
          \<and> time_strftime env ''%Y%m%d_%H%M%S'' w' = (timestamp, w'')
          \<and> image_save env img (qr_filename cpf timestamp) w'' = (Inl n, w''')
          \<longrightarrow> fst (capture_and_display_qr_image env cpf s1) = Inr None)"
proof -
  have "fst (generate_pix env self email name phone cpf s) = Inr qr_code"
    using generate_pix_result [of env self email name phone cpf s] assms by auto
  moreover have "\<exists>r s2. capture_and_display_qr_image env cpf s1 = (Inr r, s2)"
    using returns_capture_and_display_qr_image [of env cpf] unfolding returns_def by blast
  ultimately show ?thesis
    by (intro conjI allI impI)
       (blast intro: image_absent image_not_inline image_decode_error image_save_error)+
qed

text \<open>On the checkout where the picture never appears, the token is returned all the same.\<close>

theorem image_failure_keeps_token_witness:
  "token_steps shop_no_image shop_self ''a@b.com'' ''A B'' ''1199999999'' ''12345678900'' sim0
     = (Inr (Some shop_token),
        snd (token_steps shop_no_image shop_self ''a@b.com'' ''A B'' ''1199999999'' ''12345678900'' sim0))
   \<and> wdw_until shop_no_image 15 (presence_of_element_located By_CSS_SELECTOR img_selector)
        (world (snd (token_steps shop_no_image shop_self ''a@b.com'' ''A B'' ''1199999999'' ''12345678900'' sim0)))
     = (Inl ''TimeoutException'', \<lparr>script_calls = 1, files = []\<rparr>)
   \<and> fst (generate_pix shop_no_image shop_self ''a@b.com'' ''A B'' ''1199999999'' ''12345678900'' sim0)
     = Inr (Some shop_token)
   \<and> fst (capture_and_display_qr_image shop_no_image ''12345678900''
        (snd (token_steps shop_no_image shop_self ''a@b.com'' ''A B'' ''1199999999'' ''12345678900'' sim0)))
     = Inr None"
proof -
  let ?s1 = "snd (token_steps shop_no_image shop_self ''a@b.com'' ''A B'' ''1199999999'' ''12345678900'' sim0)"
  have tok: "token_steps shop_no_image shop_self ''a@b.com'' ''A B'' ''1199999999'' ''12345678900'' sim0
     = (Inr (Some shop_token), ?s1)"
    by (simp add: shop_no_image_def step_defs prog_defs shop_defs)
  have absent: "wdw_until shop_no_image 15 (presence_of_element_located By_CSS_SELECTOR img_selector)
        (world ?s1) = (Inl ''TimeoutException'', \<lparr>script_calls = 1, files = []\<rparr>)"
    by (simp add: shop_no_image_def step_defs prog_defs shop_defs)
  note run = image_failure_keeps_token [OF tok]
  have "fst (generate_pix shop_no_image shop_self ''a@b.com'' ''A B'' ''1199999999'' ''12345678900'' sim0)
        = Inr (Some shop_token)"
    using run by (rule conjunct1)
  moreover have "fst (capture_and_display_qr_image shop_no_image ''12345678900'' ?s1) = Inr None"
    using run [THEN conjunct2, THEN conjunct2, THEN conjunct1, rule_format, OF absent] .
  ultimately show ?thesis
    using tok absent by (intro conjI)
qed

section \<open>Diagnostic screenshots\<close>



























section \<open>The finalize step\<close>

lemma finish_purchase_scripted_click:
  assumes "wdw_until env (timeout self) (element_to_be_clickable By_ID ''finish-buy-btn'') w
           = (Inr b, w1)"
    and "drv_execute_script env ''arguments[0].scrollIntoView(true);'' [b] w1 = (Inr (), w2)"
    and "el_click env b (time_sleep env 1 w2) = (Inl n, w3)"
    and "drv_execute_script env ''arguments[0].click();'' [b] w3 = (Inr (), w4)"
  shows "finish_purchase env self \<lparr>world = w, trace = tr\<rparr> =
     (Inr (),
      \<lparr>world = w4,
       trace = tr @
         [WaitUntil (timeout self) (element_to_be_clickable By_ID ''finish-buy-btn''),
          ExecuteScript ''arguments[0].scrollIntoView(true);'' [b], Sleep 1, Click b,
          ExecuteScript ''arguments[0].click();'' [b], LogInfo FinishClicked]\<rparr>)"
  using assms by (simp add: finish_purchase_def prog_defs)

lemma finish_purchase_both_clicks_raise:
  assumes "wdw_until env (timeout self) (element_to_be_clickable By_ID ''finish-buy-btn'') w
           = (Inr b, w1)"
    and "drv_execute_script env ''arguments[0].scrollIntoView(true);'' [b] w1 = (Inr (), w2)"
    and "el_click env b (time_sleep env 1 w2) = (Inl n, w3)"
    and "drv_execute_script env ''arguments[0].click();'' [b] w3 = (Inl n', w4)"
  shows "finish_purchase env self \<lparr>world = w, trace = tr\<rparr> =
     finish_purchase_alternative env
       \<lparr>world = w4,
        trace = tr @
          [WaitUntil (timeout self) (element_to_be_clickable By_ID ''finish-buy-btn''),
           ExecuteScript ''arguments[0].scrollIntoView(true);'' [b], Sleep 1, Click b,
           ExecuteScript ''arguments[0].click();'' [b],
           LogError (FinishClickError (HostError n'))]\<rparr>"
  using assms by (simp add: finish_purchase_def prog_defs)

lemma finish_purchase_wait_raises:
  assumes "wdw_until env (timeout self) (element_to_be_clickable By_ID ''finish-buy-btn'') w
           = (Inl n, w1)"
  shows "finish_purchase env self \<lparr>world = w, trace = tr\<rparr> =
     finish_purchase_alternative env
       \<lparr>world = w1,
        trace = tr @
          [WaitUntil (timeout self) (element_to_be_clickable By_ID ''finish-buy-btn''),
           LogError (FinishClickError (HostError n))]\<rparr>"
  using assms by (simp add: finish_purchase_def prog_defs)

lemma finish_purchase_alternative_once:
  "finish_purchase_alternative env \<lparr>world = w, trace = tr\<rparr> =
     (case drv_find_element env By_ID ''finish-buy-btn'' w of
        (Inl n, w1) \<Rightarrow>
          (Inl FinishClickFailed,
           \<lparr>world = w1, trace = tr @ [FindElement By_ID ''finish-buy-btn'']\<rparr>)
      | (Inr b, w1) \<Rightarrow>
          (case drv_execute_script env ''arguments[0].click();'' [b] w1 of
             (Inl n, w2) \<Rightarrow>
               (Inl FinishClickFailed,
                \<lparr>world = w2,
                 trace = tr @ [FindElement By_ID ''finish-buy-btn'',
                               ExecuteScript ''arguments[0].click();'' [b]]\<rparr>)
           | (Inr u, w2) \<Rightarrow>
               (Inr (),
                \<lparr>world = w2,
                 trace = tr @ [FindElement By_ID ''finish-buy-btn'',
                               ExecuteScript ''arguments[0].click();'' [b],
                               LogInfo ClickedWithJavaScript]\<rparr>)))"
  by (simp add: finish_purchase_alternative_def prog_defs split: prod.splits sum.splits)

text \<open>
  Claim C4, as amended. When the native click raises, the scripted click is invoked on the
  same element; when it returns, the step has succeeded with that one scripted click and no
  other lookup. When the scripted click raises as well, or when the wait for the control
  raised, the handler makes exactly one direct lookup, followed by one scripted click on the
  element found, and the step succeeds or raises the failure of line 233.
\<close>

theorem finish_purchase_fallbacks:
  "(\<forall>b w1 w2 n w3 w4.
      wdw_until env (timeout self) (element_to_be_clickable By_ID ''finish-buy-btn'') w = (Inr b, w1)
      \<and> drv_execute_script env ''arguments[0].scrollIntoView(true);'' [b] w1 = (Inr (), w2)
      \<and> el_click env b (time_sleep env 1 w2) = (Inl n, w3)
      \<and> drv_execute_script env ''arguments[0].click();'' [b] w3 = (Inr (), w4)
      \<longrightarrow> finish_purchase env self \<lparr>world = w, trace = tr\<rparr> =
           (Inr (),
            \<lparr>world = w4,
             trace = tr @
               [WaitUntil (timeout self) (element_to_be_clickable By_ID ''finish-buy-btn''),
                ExecuteScript ''arguments[0].scrollIntoView(true);'' [b], Sleep 1, Click b,
                ExecuteScript ''arguments[0].click();'' [b], LogInfo FinishClicked]\<rparr>))
   \<and> (\<forall>b w1 w2 n w3 n' w4.
      wdw_until env (timeout self) (element_to_be_clickable By_ID ''finish-buy-btn'') w = (Inr b, w1)
      \<and> drv_execute_script env ''arguments[0].scrollIntoView(true);'' [b] w1 = (Inr (), w2)
      \<and> el_click env b (time_sleep env 1 w2) = (Inl n, w3)
      \<and> drv_execute_script env ''arguments[0].click();'' [b] w3 = (Inl n', w4)
      \<longrightarrow> finish_purchase env self \<lparr>world = w, trace = tr\<rparr> =
           finish_purchase_alternative env
             \<lparr>world = w4,
              trace = tr @
                [WaitUntil (timeout self) (element_to_be_clickable By_ID ''finish-buy-btn''),
                 ExecuteScript ''arguments[0].scrollIntoView(true);'' [b], Sleep 1, Click b,
                 ExecuteScript ''arguments[0].click();'' [b],
                 LogError (FinishClickError (HostError n'))]\<rparr>)
   \<and> (\<forall>n w1.
      wdw_until env (timeout self) (element_to_be_clickable By_ID ''finish-buy-btn'') w = (Inl n, w1)
      \<longrightarrow> finish_purchase env self \<lparr>world = w, trace = tr\<rparr> =
           finish_purchase_alternative env
             \<lparr>world = w1,
              trace = tr @
                [WaitUntil (timeout self) (element_to_be_clickable By_ID ''finish-buy-btn''),
                 LogError (FinishClickError (HostError n))]\<rparr>)
   \<and> finish_purchase_alternative env \<lparr>world = w', trace = tr'\<rparr> =
     (case drv_find_element env By_ID ''finish-buy-btn'' w' of
        (Inl n, w1) \<Rightarrow>
          (Inl FinishClickFailed,
           \<lparr>world = w1, trace = tr' @ [FindElement By_ID ''finish-buy-btn'']\<rparr>)
      | (Inr b, w1) \<Rightarrow>
          (case drv_execute_script env ''arguments[0].click();'' [b] w1 of
             (Inl n, w2) \<Rightarrow>
               (Inl FinishClickFailed,
                \<lparr>world = w2,
                 trace = tr' @ [FindElement By_ID ''finish-buy-btn'',
                                ExecuteScript ''arguments[0].click();'' [b]]\<rparr>)
           | (Inr u, w2) \<Rightarrow>
               (Inr (),
                \<lparr>world = w2,
                 trace = tr' @ [FindElement By_ID ''finish-buy-btn'',
                                ExecuteScript ''arguments[0].click();'' [b],
                                LogInfo ClickedWithJavaScript]\<rparr>)))"
  by (intro conjI allI impI finish_purchase_alternative_once)
     (blast intro: finish_purchase_scripted_click finish_purchase_both_clicks_raise
        finish_purchase_wait_raises)+

text \<open>On the checkout where the native click is intercepted, one scripted click finalizes.\<close>

theorem finish_purchase_fallbacks_witness:
  "wdw_until shop_intercepted (timeout shop_self) (element_to_be_clickable By_ID ''finish-buy-btn'')
     \<lparr>script_calls = 0, files = []\<rparr> = (Inr (WebElement 2), \<lparr>script_calls = 0, files = []\<rparr>)
   \<and> drv_execute_script shop_intercepted ''arguments[0].scrollIntoView(true);'' [WebElement 2]
     \<lparr>script_calls = 0, files = []\<rparr> = (Inr (), \<lparr>script_calls = 1, files = []\<rparr>)
   \<and> el_click shop_intercepted (WebElement 2)
     (time_sleep shop_intercepted 1 \<lparr>script_calls = 1, files = []\<rparr>)
     = (Inl ''ElementClickInterceptedException'', \<lparr>script_calls = 1, files = []\<rparr>)
   \<and> drv_execute_script shop_intercepted ''arguments[0].click();'' [WebElement 2]
     \<lparr>script_calls = 1, files = []\<rparr> = (Inr (), \<lparr>script_calls = 2, files = []\<rparr>)
   \<and> finish_purchase shop_intercepted shop_self \<lparr>world = \<lparr>script_calls = 0, files = []\<rparr>, trace = []\<rparr> =
     (Inr (),
      \<lparr>world = \<lparr>script_calls = 2, files = []\<rparr>,
       trace =
         [WaitUntil 10 (element_to_be_clickable By_ID ''finish-buy-btn''),
          ExecuteScript ''arguments[0].scrollIntoView(true);'' [WebElement 2], Sleep 1,
          Click (WebElement 2),
          ExecuteScript ''arguments[0].click();'' [WebElement 2], LogInfo FinishClicked]\<rparr>)"
proof -
  have 1: "wdw_until shop_intercepted (timeout shop_self) (element_to_be_clickable By_ID ''finish-buy-btn'')
     \<lparr>script_calls = 0, files = []\<rparr> = (Inr (WebElement 2), \<lparr>script_calls = 0, files = []\<rparr>)"
    by (simp add: shop_intercepted_def shop_defs)
  have 2: "drv_execute_script shop_intercepted ''arguments[0].scrollIntoView(true);'' [WebElement 2]
     \<lparr>script_calls = 0, files = []\<rparr> = (Inr (), \<lparr>script_calls = 1, files = []\<rparr>)"
    by (simp add: shop_intercepted_def shop_defs)
  have 3: "el_click shop_intercepted (WebElement 2)
     (time_sleep shop_intercepted 1 \<lparr>script_calls = 1, files = []\<rparr>)
     = (Inl ''ElementClickInterceptedException'', \<lparr>script_calls = 1, files = []\<rparr>)"
    by (simp add: shop_intercepted_def shop_defs)
  have 4: "drv_execute_script shop_intercepted ''arguments[0].click();'' [WebElement 2]
     \<lparr>script_calls = 1, files = []\<rparr> = (Inr (), \<lparr>script_calls = 2, files = []\<rparr>)"
    by (simp add: shop_intercepted_def shop_defs)
  have "finish_purchase shop_intercepted shop_self \<lparr>world = \<lparr>script_calls = 0, files = []\<rparr>, trace = []\<rparr> =
     (Inr (),
      \<lparr>world = \<lparr>script_calls = 2, files = []\<rparr>,
       trace = [] @
         [WaitUntil (timeout shop_self) (element_to_be_clickable By_ID ''finish-buy-btn''),
          ExecuteScript ''arguments[0].scrollIntoView(true);'' [WebElement 2], Sleep 1,
          Click (WebElement 2),
          ExecuteScript ''arguments[0].click();'' [WebElement 2], LogInfo FinishClicked]\<rparr>)"
    using finish_purchase_fallbacks [THEN conjunct1, rule_format, OF conjI [OF 1 conjI [OF 2 conjI [OF 3 4]]]] .
  then show ?thesis
    using 1 2 3 4 by (simp add: shop_self_def)
qed

text \<open>
  Claim C4 as stated fails. On the checkout that refuses the native click and the first
  scripted click, the scripted click is invoked twice on the same element before the step
  succeeds.
\<close>

theorem finish_purchase_counterexample:
  "fst (finish_purchase shop_stubborn shop_self sim0) = Inr ()
   \<and> trace (snd (finish_purchase shop_stubborn shop_self sim0)) =
       [WaitUntil 10 (element_to_be_clickable By_ID ''finish-buy-btn''),
        ExecuteScript ''arguments[0].scrollIntoView(true);'' [WebElement 2], Sleep 1,
        Click (WebElement 2),
        ExecuteScript ''arguments[0].click();'' [WebElement 2],
        LogError (FinishClickError (HostError ''JavascriptException'')),
        FindElement By_ID ''finish-buy-btn'',
        ExecuteScript ''arguments[0].click();'' [WebElement 2],
        LogInfo ClickedWithJavaScript]
   \<and> count_list (trace (snd (finish_purchase shop_stubborn shop_self sim0)))
        (ExecuteScript ''arguments[0].click();'' [WebElement 2]) = 2"
  by (simp add: shop_stubborn_def step_defs prog_defs shop_defs)

section \<open>The existing-payment step: priority of the locators\<close>









section \<open>The token step and the URL\<close>

lemma not_found_raises:
  "fst (nxt (logger_error m) (nxt (take_screenshot env tag) (raise e)) s) = Inl e"
proof -
  let ?s0 = "s\<lparr>trace := trace s @ [LogError m]\<rparr>"
  obtain u s1 where "take_screenshot env tag ?s0 = (Inr u, s1)"
    using returns_take_screenshot [of env tag] unfolding returns_def by blast
  then show ?thesis
    by (simp add: nxt_def bnd_def logger_error_def raise_def)
qed

text \<open>
  Claim C7, as amended. When the URL read first indicates the intermediate page, the step
  waits once more and reads the URL again; whatever that second URL is, also one that still
  indicates the intermediate page, the step only logs it and goes on to the token field. It
  returns the value of the field when the wait and the read of the field return, and it raises
  the exception of line 291 (QR code not found) when one of them raises. No failure comes from
  the URL.
\<close>

theorem capture_qr_code_ignores_stall:
  assumes "drv_current_url env (time_sleep env 3 w) = (Inr url, w1)"
    and "py_in ''/payment/'' url"
    and "drv_current_url env (time_sleep env 5 w1) = (Inr url', w2)"
  shows
    "case wdw_until env 15 (presence_of_element_located By_ID ''qrCode'') w2 of
       (Inl n, w3) \<Rightarrow> fst (capture_qr_code env \<lparr>world = w, trace = tr\<rparr>) = Inl QrCodeNotFound
     | (Inr qr_element, w3) \<Rightarrow>
         (case el_get_attribute env qr_element ''value'' w3 of
            (Inl n, w4) \<Rightarrow>
              fst (capture_qr_code env \<lparr>world = w, trace = tr\<rparr>) = Inl QrCodeNotFound
          | (Inr qr_code, w4) \<Rightarrow>
              capture_qr_code env \<lparr>world = w, trace = tr\<rparr> =
                (Inr qr_code,
                 \<lparr>world = w4,
                  trace = tr @
                    [Sleep 3, CurrentUrl, LogInfo AwaitingRedirect, Sleep 5, CurrentUrl,
                     LogInfo (UrlAfterWait url'),
                     WaitUntil 15 (presence_of_element_located By_ID ''qrCode''),
                     GetAttribute qr_element ''value'', LogInfo QrCaptured]\<rparr>))"
proof -
  let ?s2 = "\<lparr>world = w2,
      trace = tr @ [Sleep 3, CurrentUrl, LogInfo AwaitingRedirect, Sleep 5, CurrentUrl,
                    LogInfo (UrlAfterWait url')]\<rparr>"
  let ?field =
    "try_except
       (bnd (until env 15 (presence_of_element_located By_ID ''qrCode'')) (\<lambda>qr_element.
        bnd (get_attribute env qr_element ''value'') (\<lambda>qr_code.
        nxt (logger_info QrCaptured)
            (ret qr_code))))
       (\<lambda>_. nxt (logger_error QrNotFoundAfter15s)
           (nxt (take_screenshot env ''qr_code_not_found'')
                (raise QrCodeNotFound)))"
  have go_on: "capture_qr_code env \<lparr>world = w, trace = tr\<rparr> = ?field ?s2"
    using assms
    by (simp add: capture_qr_code_def nxt_def bnd_def sleep_def current_url_def call_def
        call_total_def logger_info_def)
  obtain r w3 where wait: "wdw_until env 15 (presence_of_element_located By_ID ''qrCode'') w2 = (r, w3)"
    by (cases "wdw_until env 15 (presence_of_element_located By_ID ''qrCode'') w2")
  show ?thesis
  proof (cases r)
    case (Inl n)
    then have "fst (?field ?s2) = Inl QrCodeNotFound"
      using wait not_found_raises [of QrNotFoundAfter15s env "''qr_code_not_found''" QrCodeNotFound]
      by (simp add: try_except_def bnd_def until_def call_def)
    with go_on wait Inl show ?thesis by simp
  next
    case (Inr qr_element)
    obtain r' w4 where read: "el_get_attribute env qr_element ''value'' w3 = (r', w4)"
      by (cases "el_get_attribute env qr_element ''value'' w3")
    show ?thesis
    proof (cases r')
      case (Inl n)
      then have "fst (?field ?s2) = Inl QrCodeNotFound"
        using wait \<open>r = Inr qr_element\<close> read
          not_found_raises [of QrNotFoundAfter15s env "''qr_code_not_found''" QrCodeNotFound]
        by (simp add: try_except_def bnd_def until_def get_attribute_def call_def)
      with go_on wait \<open>r = Inr qr_element\<close> read Inl show ?thesis by simp
    next
      case (Inr qr_code)
      then have "?field ?s2 =
          (Inr qr_code,
           \<lparr>world = w4,
            trace = tr @
              [Sleep 3, CurrentUrl, LogInfo AwaitingRedirect, Sleep 5, CurrentUrl,
               LogInfo (UrlAfterWait url'),
               WaitUntil 15 (presence_of_element_located By_ID ''qrCode''),
               GetAttribute qr_element ''value'', LogInfo QrCaptured]\<rparr>)"
        using wait \<open>r = Inr qr_element\<close> read
        by (simp add: try_except_def bnd_def nxt_def until_def get_attribute_def call_def
            logger_info_def ret_def)
      with go_on wait \<open>r = Inr qr_element\<close> read Inr show ?thesis by simp
    qed
  qed
qed

text \<open>On the checkout whose URL stays the intermediate one, the token is returned.\<close>

theorem capture_qr_code_ignores_stall_witness:
  "drv_current_url shop_stalled (time_sleep shop_stalled 3 \<lparr>script_calls = 0, files = []\<rparr>)
     = (Inr stalled_url, \<lparr>script_calls = 0, files = []\<rparr>)
   \<and> py_in ''/payment/'' stalled_url
   \<and> drv_current_url shop_stalled (time_sleep shop_stalled 5 \<lparr>script_calls = 0, files = []\<rparr>)
     = (Inr stalled_url, \<lparr>script_calls = 0, files = []\<rparr>)
   \<and> capture_qr_code shop_stalled \<lparr>world = \<lparr>script_calls = 0, files = []\<rparr>, trace = []\<rparr> =
     (Inr (Some shop_token),
      \<lparr>world = \<lparr>script_calls = 0, files = []\<rparr>,
       trace =
         [Sleep 3, CurrentUrl, LogInfo AwaitingRedirect, Sleep 5, CurrentUrl,
          LogInfo (UrlAfterWait stalled_url),
          WaitUntil 15 (presence_of_element_located By_ID ''qrCode''),
          GetAttribute (WebElement 3) ''value'', LogInfo QrCaptured]\<rparr>)"
proof -
  let ?w0 = "\<lparr>script_calls = 0, files = []\<rparr>"
  have 1: "drv_current_url shop_stalled (time_sleep shop_stalled 3 ?w0) = (Inr stalled_url, ?w0)"
    by (simp add: shop_stalled_def shop_def)
  have 2: "py_in ''/payment/'' stalled_url"
    by (simp add: stalled_url_def)
  have 3: "drv_current_url shop_stalled (time_sleep shop_stalled 5 ?w0) = (Inr stalled_url, ?w0)"
    by (simp add: shop_stalled_def shop_def)
  have field: "wdw_until shop_stalled 15 (presence_of_element_located By_ID ''qrCode'') ?w0
      = (Inr (WebElement 3), ?w0)"
    "el_get_attribute shop_stalled (WebElement 3) ''value'' ?w0 = (Inr (Some shop_token), ?w0)"
    by (simp_all add: shop_stalled_def shop_def shop_until_def shop_get_attribute_def)
  show ?thesis
    using capture_qr_code_ignores_stall [OF 1 2 3, of "[]"] 1 2 3
    by (simp add: field)
qed

text \<open>
  Claim C7 as stated fails. On that checkout the URL read after the extra wait still holds
  \<^verbatim>\<open>/payment/\<close>, and the token step returns the token; so does \<^verbatim>\<open>generate_pix\<close>.
\<close>

theorem navigation_stall_counterexample:
  "py_in ''/payment/'' stalled_url
   \<and> trace (snd (capture_qr_code shop_stalled sim0)) =
       [Sleep 3, CurrentUrl, LogInfo AwaitingRedirect, Sleep 5, CurrentUrl,
        LogInfo (UrlAfterWait stalled_url),
        WaitUntil 15 (presence_of_element_located By_ID ''qrCode''),
        GetAttribute (WebElement 3) ''value'', LogInfo QrCaptured]
   \<and> fst (capture_qr_code shop_stalled sim0) = Inr (Some shop_token)
   \<and> fst (generate_pix shop_stalled shop_self ''a@b.com'' ''A B'' ''1199999999'' ''12345678900'' sim0)
     = Inr (Some shop_token)"
  by (simp add: shop_stalled_def stalled_url_def step_defs prog_defs shop_defs)

section \<open>The saved picture\<close>





end
